theory Spec2Isabelle
  imports Complex_Main
begin

section \<open>JavaScript values used by the trade execution code\<close>

text \<open>
  A thrown value. The code reads \<^verbatim>\<open>error.message\<close> (absent on a value that is not an
  \<^verbatim>\<open>Error\<close>) and, in the retry engine, \<^verbatim>\<open>String(error)\<close>.
\<close>

record js_error =
  message :: "string option"
  to_str :: string

definition Error :: "string \<Rightarrow> js_error" where
  \<comment> \<open>\<^verbatim>\<open>new Error(msg)\<close>\<close>
  "Error msg = \<lparr>message = Some msg, to_str = ''Error: '' @ msg\<rparr>"

definition undefined_value :: js_error where
  \<comment> \<open>the value \<^verbatim>\<open>undefined\<close>, thrown by \<^verbatim>\<open>throw lastError\<close> when no attempt ran\<close>
  "undefined_value = \<lparr>message = None, to_str = ''undefined''\<rparr>"

definition message_or :: "js_error \<Rightarrow> string \<Rightarrow> string" where
  \<comment> \<open>\<^verbatim>\<open>error.message || dflt\<close>: an absent or empty message is falsy\<close>
  "message_or e dflt = (case message e of None \<Rightarrow> dflt | Some m \<Rightarrow> if m = [] then dflt else m)"

definition message_text :: "js_error \<Rightarrow> string" where
  \<comment> \<open>\<^verbatim>\<open>${error.message}\<close> inside a template literal\<close>
  "message_text e = (case message e of None \<Rightarrow> ''undefined'' | Some m \<Rightarrow> m)"

text \<open>
  Strings are lists of 8-bit characters; \<^verbatim>\<open>toLowerCase\<close> is modelled on the ASCII
  letters, which is all the retry patterns contain.
\<close>

definition toLowerCase_char :: "char \<Rightarrow> char" where
  "toLowerCase_char c =
     (case map_of (zip ''ABCDEFGHIJKLMNOPQRSTUVWXYZ'' ''abcdefghijklmnopqrstuvwxyz'') c of
        None \<Rightarrow> c | Some l \<Rightarrow> l)"

definition toLowerCase :: "string \<Rightarrow> string" where
  "toLowerCase s = map toLowerCase_char s"

fun startsWith :: "string \<Rightarrow> string \<Rightarrow> bool" where
  "startsWith s [] = True"
| "startsWith [] (p # ps) = False"
| "startsWith (c # cs) (p # ps) = (c = p \<and> startsWith cs ps)"

fun str_includes :: "string \<Rightarrow> string \<Rightarrow> bool" where
  \<comment> \<open>\<^verbatim>\<open>s.includes(p)\<close>\<close>
  "str_includes [] p = (p = [])"
| "str_includes (c # cs) p = (startsWith (c # cs) p \<or> str_includes cs p)"

section \<open>Retry engine (utils/retry)\<close>

record RetryOptions =
  maxRetries :: "int option"
  initialDelayMs :: "rat option"
  maxDelayMs :: "rat option"
  backoffMultiplier :: "rat option"
  retryableErrors :: "string list option"
  retry_network :: "string option"  \<comment> \<open>the field \<^verbatim>\<open>network\<close>\<close>

record RetryProfile =
  p_maxRetries :: int
  p_initialDelayMs :: rat
  p_maxDelayMs :: rat
  p_backoffMultiplier :: rat
  p_retryableErrors :: "string list"

definition no_options :: RetryOptions where
  \<comment> \<open>the default argument \<^verbatim>\<open>options = {}\<close>\<close>
  "no_options = \<lparr>maxRetries = None, initialDelayMs = None, maxDelayMs = None,
     backoffMultiplier = None, retryableErrors = None, retry_network = None\<rparr>"

definition DEFAULT_OPTIONS :: RetryProfile where
  "DEFAULT_OPTIONS = \<lparr>p_maxRetries = 3, p_initialDelayMs = 1000, p_maxDelayMs = 10000,
     p_backoffMultiplier = 2,
     p_retryableErrors = [''429'', ''rate limit'', ''too many requests'',
        ''ECONNRESET'', ''ETIMEDOUT'', ''ENOTFOUND'']\<rparr>"

definition BASE_NETWORK_OPTIONS :: RetryProfile where
  "BASE_NETWORK_OPTIONS = \<lparr>p_maxRetries = 5, p_initialDelayMs = 2500, p_maxDelayMs = 20000,
     p_backoffMultiplier = 5 / 2,
     p_retryableErrors = [''429'', ''rate limit'', ''too many requests'',
        ''ECONNRESET'', ''ETIMEDOUT'', ''ENOTFOUND'']\<rparr>"

definition isRetryableError :: "js_error \<Rightarrow> string list \<Rightarrow> bool" where
  "isRetryableError error retryable =
     (let errorString = toLowerCase (message_or error (to_str error))
      in list_ex (\<lambda>retryableError. str_includes errorString (toLowerCase retryableError)) retryable)"

definition merge_options :: "RetryProfile \<Rightarrow> RetryOptions \<Rightarrow> RetryProfile" where
  \<comment> \<open>\<^verbatim>\<open>{ ...baseOptions, ...options }\<close>\<close>
  "merge_options b options = \<lparr>
     p_maxRetries = (case maxRetries options of None \<Rightarrow> p_maxRetries b | Some v \<Rightarrow> v),
     p_initialDelayMs = (case initialDelayMs options of None \<Rightarrow> p_initialDelayMs b | Some v \<Rightarrow> v),
     p_maxDelayMs = (case maxDelayMs options of None \<Rightarrow> p_maxDelayMs b | Some v \<Rightarrow> v),
     p_backoffMultiplier =
       (case backoffMultiplier options of None \<Rightarrow> p_backoffMultiplier b | Some v \<Rightarrow> v),
     p_retryableErrors =
       (case retryableErrors options of None \<Rightarrow> p_retryableErrors b | Some v \<Rightarrow> v)\<rparr>"

text \<open>
  The wrapped operation \<^verbatim>\<open>fn\<close> is effectful: it is a state transformer that either
  throws (\<open>Inl\<close>) or returns a value. A run of the retry loop records what the caller
  observes (\<open>outcome\<close>), the state the operation left behind, how many times the operation
  was invoked, and the delays slept between attempts.
\<close>

record ('a, 's) retry_run =
  outcome :: "js_error + 'a"
  final :: 's
  calls :: nat
  slept :: "rat list"

function retry_loop ::
  "RetryProfile \<Rightarrow> ('s \<Rightarrow> (js_error + 'a) \<times> 's) \<Rightarrow> int \<Rightarrow> rat \<Rightarrow> js_error \<Rightarrow>
     's \<Rightarrow> nat \<Rightarrow> rat list \<Rightarrow> ('a, 's) retry_run" where
  "retry_loop opts fn attempt delayMs lastError s n zs =
     (if attempt \<le> p_maxRetries opts then
        (case fn s of
           (Inr v, s') \<Rightarrow> \<lparr>outcome = Inr v, final = s', calls = n + 1, slept = zs\<rparr>
         | (Inl error, s') \<Rightarrow>
             if attempt = p_maxRetries opts \<or> \<not> isRetryableError error (p_retryableErrors opts)
             then \<lparr>outcome = Inl error, final = s', calls = n + 1, slept = zs\<rparr>
             else retry_loop opts fn (attempt + 1)
                    (min (delayMs * p_backoffMultiplier opts) (p_maxDelayMs opts))
                    error s' (n + 1) (zs @ [delayMs]))
      else \<lparr>outcome = Inl lastError, final = s, calls = n, slept = zs\<rparr>)"
  by pat_completeness auto
termination
  by (relation "measure (\<lambda>(opts, fn, attempt, delayMs, lastError, s, n, zs).
        nat (p_maxRetries opts + 1 - attempt))") auto

declare retry_loop.simps [simp del]

definition retryWithBackoff ::
  "('s \<Rightarrow> (js_error + 'a) \<times> 's) \<Rightarrow> RetryOptions \<Rightarrow> 's \<Rightarrow> ('a, 's) retry_run" where
  "retryWithBackoff fn options s =
     (let baseOptions = (if retry_network options = Some ''BASE'' then BASE_NETWORK_OPTIONS
                         else DEFAULT_OPTIONS);
          opts = merge_options baseOptions options
      in retry_loop opts fn 0 (p_initialDelayMs opts) undefined_value s 0 [])"

text \<open>The state before, and the result of, the \<open>k\<close>-th invocation (counted from 0) of an
  operation that is invoked repeatedly from state \<open>s\<close>.\<close>

fun state_before :: "('s \<Rightarrow> (js_error + 'a) \<times> 's) \<Rightarrow> 's \<Rightarrow> nat \<Rightarrow> 's" where
  "state_before fn s 0 = s"
| "state_before fn s (Suc k) = state_before fn (snd (fn s)) k"

definition invocation :: "('s \<Rightarrow> (js_error + 'a) \<times> 's) \<Rightarrow> 's \<Rightarrow> nat \<Rightarrow> js_error + 'a" where
  "invocation fn s k = fst (fn (state_before fn s k))"

definition retryable_failure :: "RetryProfile \<Rightarrow> js_error + 'a \<Rightarrow> bool" where
  "retryable_failure opts r =
     (case r of Inl e \<Rightarrow> isRetryableError e (p_retryableErrors opts) | Inr v \<Rightarrow> False)"

text \<open>A scripted operation for concrete runs: the state is the list of results still to
  come; an exhausted script keeps failing with a fixed error.\<close>

definition scripted :: "(js_error + 'a) list \<Rightarrow> (js_error + 'a) \<times> (js_error + 'a) list" where
  "scripted s = (case s of [] \<Rightarrow> (Inl (Error ''script exhausted''), []) | r # rs \<Rightarrow> (r, rs))"

section \<open>JavaScript numbers\<close>

text \<open>
  A JavaScript number is modelled by the rational it stands for: IEEE rounding is not
  part of the model. Division is the one operation of the code that leaves the finite
  numbers (a zero divisor gives \<^verbatim>\<open>Infinity\<close> or \<^verbatim>\<open>NaN\<close>), so a quotient whose divisor may
  be zero is a \<open>jsnum\<close>. A decimal string (the result of \<^verbatim>\<open>toFixed\<close> or \<^verbatim>\<open>fromWei\<close>, a
  \<^verbatim>\<open>decimal\<close> column) is modelled by its value.
\<close>

datatype jsnum = Num rat | Infinity | NegInfinity | NaN

definition js_div :: "rat \<Rightarrow> rat \<Rightarrow> jsnum" where
  "js_div a b = (if b \<noteq> 0 then Num (a / b)
                 else if 0 < a then Infinity else if a < 0 then NegInfinity else NaN)"

fun js_gt :: "jsnum \<Rightarrow> rat \<Rightarrow> bool" where
  \<comment> \<open>\<^verbatim>\<open>x > y\<close> for a finite \<open>y\<close>\<close>
  "js_gt (Num a) y = (y < a)"
| "js_gt Infinity y = True"
| "js_gt NegInfinity y = False"
| "js_gt NaN y = False"

definition toFixed :: "nat \<Rightarrow> rat \<Rightarrow> rat" where
  \<comment> \<open>\<^verbatim>\<open>x.toFixed(d)\<close>: the nearest multiple of \<open>10\<^sup>-\<^sup>d\<close>, the larger magnitude on a tie\<close>
  "toFixed d x = (if x < 0 then - (of_int \<lfloor>- x * 10 ^ d + 1 / 2\<rfloor> / 10 ^ d)
                  else of_int \<lfloor>x * 10 ^ d + 1 / 2\<rfloor> / 10 ^ d)"


fun show_nat :: "nat \<Rightarrow> string" where
  "show_nat n = (if n < 10 then [''0123456789'' ! n]
                 else show_nat (n div 10) @ [''0123456789'' ! (n mod 10)])"

declare show_nat.simps [simp del]

definition toFixed_str :: "nat \<Rightarrow> rat \<Rightarrow> string" where
  \<comment> \<open>the text of \<^verbatim>\<open>x.toFixed(d)\<close>\<close>
  "toFixed_str d x =
     (let n = nat \<lfloor>\<bar>x\<bar> * 10 ^ d + 1 / 2\<rfloor>;
          frac = show_nat (n mod 10 ^ d)
      in (if x < 0 then ''-'' else []) @ show_nat (n div 10 ^ d) @
         (if d = 0 then [] else ''.'' @ replicate (d - length frac) CHR ''0'' @ frac))"

definition fromWei :: "nat \<Rightarrow> rat" where
  \<comment> \<open>\<^verbatim>\<open>web3.utils.fromWei(wei, 'ether')\<close>, an exact decimal string\<close>
  "fromWei wei = of_nat wei / 10 ^ 18"


section \<open>Shared schema types\<close>

datatype NetworkType = ETH | BASE | BNB | SOL

fun network_name :: "NetworkType \<Rightarrow> string" where
  "network_name ETH = ''ETH''"
| "network_name BASE = ''BASE''"
| "network_name BNB = ''BNB''"
| "network_name SOL = ''SOL''"

record TradeResult =
  success :: bool
  txHash :: "string option"
  tokenAmount :: "rat option"
  gasFee :: "rat option"
  gasFeeUsd :: "rat option"
  tokenPrice :: "jsnum option"
  slippage :: "rat option"
  errorMessage :: "string option"

definition failed_with :: "string \<Rightarrow> TradeResult" where
  \<comment> \<open>\<^verbatim>\<open>{ success: false, errorMessage: msg }\<close>\<close>
  "failed_with msg = \<lparr>success = False, txHash = None, tokenAmount = None, gasFee = None,
     gasFeeUsd = None, tokenPrice = None, slippage = None, errorMessage = Some msg\<rparr>"

text \<open>\<^verbatim>\<open>TradeParams.network\<close> is a \<^verbatim>\<open>NetworkType\<close> for the trading service; the scheduler
  passes the configuration's \<^verbatim>\<open>varchar\<close> through \<^verbatim>\<open>as any\<close>, hence the type parameter.\<close>

record 'n TradeParams =
  network :: 'n
  dex :: string
  dexVersion :: "string option"
  tokenAddress :: string
  amountUsd :: rat
  slippageTolerance :: rat
  maxGasRatio :: rat

section \<open>Price service\<close>

fun COIN_GECKO_IDS :: "NetworkType \<Rightarrow> string" where
  "COIN_GECKO_IDS ETH = ''ethereum''"
| "COIN_GECKO_IDS BASE = ''ethereum''"
| "COIN_GECKO_IDS BNB = ''binancecoin''"
| "COIN_GECKO_IDS SOL = ''solana''"

fun FALLBACK_PRICES :: "NetworkType \<Rightarrow> rat" where
  "FALLBACK_PRICES ETH = 2000"
| "FALLBACK_PRICES BASE = 2000"
| "FALLBACK_PRICES BNB = 600"
| "FALLBACK_PRICES SOL = 150"

text \<open>What one request to the price API comes back with: \<^verbatim>\<open>fetch\<close> rejects, or the
  response has a status and, when it parses, the \<^verbatim>\<open>usd\<close> field for the coin (if any).\<close>

datatype http_reply = FetchFailed js_error | Response bool nat "rat option"

definition fetchPriceFromAPI :: "http_reply \<Rightarrow> string \<Rightarrow> js_error + rat" where
  "fetchPriceFromAPI reply coinId =
     (case reply of
        FetchFailed e \<Rightarrow> Inl e
      | Response ok status usd \<Rightarrow>
          if \<not> ok then Inl (Error (''CoinGecko API error: '' @ show_nat status))
          else (case usd of
                  None \<Rightarrow> Inl (Error (''Price not found for '' @ coinId))
                | Some price \<Rightarrow>
                    if price = 0 then Inl (Error (''Price not found for '' @ coinId))
                    else Inr price))"

definition getPrice :: "(string \<Rightarrow> http_reply) \<Rightarrow> NetworkType \<Rightarrow> rat" where
  \<comment> \<open>never throws: any failure of the fetch gives the static fallback\<close>
  "getPrice api n =
     (let coinId = COIN_GECKO_IDS n; fallbackPrice = FALLBACK_PRICES n
      in case fetchPriceFromAPI (api coinId) coinId of
           Inr price \<Rightarrow> price
         | Inl error \<Rightarrow> fallbackPrice)"

section \<open>Trading service\<close>

text \<open>The process environment: \<^verbatim>\<open>RPC_URL_<network>\<close> and \<^verbatim>\<open>PRIVATE_KEY_<network>\<close>.
  An empty variable is falsy, like an absent one.\<close>

record process_env =
  RPC_URL :: "NetworkType \<Rightarrow> string option"
  PRIVATE_KEY :: "NetworkType \<Rightarrow> string option"

definition truthy :: "string option \<Rightarrow> bool" where
  "truthy v = (case v of None \<Rightarrow> False | Some s \<Rightarrow> s \<noteq> [])"

definition web3Instances :: "process_env \<Rightarrow> NetworkType \<Rightarrow> string option" where
  \<comment> \<open>the map filled by the constructor for ETH, BASE and BNB; an instance is named by
      its endpoint\<close>
  "web3Instances env n = (if n \<noteq> SOL \<and> truthy (RPC_URL env n) then RPC_URL env n else None)"

definition solanaConnection :: "process_env \<Rightarrow> string option" where
  "solanaConnection env = (if truthy (RPC_URL env SOL) then RPC_URL env SOL else None)"

definition getPrivateKey :: "process_env \<Rightarrow> NetworkType \<Rightarrow> string option" where
  "getPrivateKey env n = PRIVATE_KEY env n"

definition isNetworkAvailable :: "process_env \<Rightarrow> NetworkType \<Rightarrow> bool" where
  "isNetworkAvailable env n =
     (let privateKey = getPrivateKey env n
      in if n = SOL then truthy privateKey \<and> solanaConnection env \<noteq> None
         else truthy privateKey \<and> web3Instances env n \<noteq> None)"

definition isValidTokenAddress :: "NetworkType \<Rightarrow> string \<Rightarrow> bool" where
  "isValidTokenAddress n address =
     (if n = SOL
      then 32 \<le> length address \<and> length address \<le> 44 \<and>
           list_all (\<lambda>c. c \<in> set ''123456789ABCDEFGHJKLMNPQRSTUVWXYZabcdefghijkmnopqrstuvwxyz'')
             address
      else length address = 42 \<and> take 2 address = ''0x'' \<and>
           list_all (\<lambda>c. c \<in> set ''abcdefABCDEF0123456789'') (drop 2 address))"

text \<open>
  What the outside world answers during one trade: the account derived from a key (the
  derivation throws on a malformed key), the gas price of a network's node, the price API
  at the \<open>i\<close>-th call of \<^verbatim>\<open>getPrice\<close> in the trade, and the text of a number in a template
  literal.
\<close>

record world =
  privateKeyToAccount :: "string \<Rightarrow> js_error + string"
  keypairFromSecretKey :: "string \<Rightarrow> js_error + string"
  getGasPrice :: "NetworkType \<Rightarrow> js_error + nat"
  priceApi :: "nat \<Rightarrow> string \<Rightarrow> http_reply"
  numberToString :: "rat \<Rightarrow> string"

text \<open>The parameters handed to an EVM adapter (\<^verbatim>\<open>UniswapSwapParams\<close>,
  \<^verbatim>\<open>UniswapV3SwapParams\<close>; PancakeSwap takes the same without the network) and to the
  Jupiter adapter.\<close>

record SwapParams =
  sp_web3 :: string
  sp_network :: NetworkType
  sp_tokenAddress :: string
  sp_amountETH :: rat
  sp_slippageTolerance :: rat
  sp_walletAddress :: string
  sp_privateKey :: string
  sp_nativeTokenPriceUsd :: rat

record JupiterSwapParams =
  jp_connection :: string
  jp_tokenMint :: string
  jp_amountSOL :: rat
  jp_slippageBps :: int
  jp_walletAddress :: string
  jp_privateKey :: string
  jp_solPriceUsd :: rat

text \<open>The four adapters. Each \<^verbatim>\<open>executeSwap\<close> catches whatever is thrown inside it and
  returns a result, so an adapter is a function to \<open>TradeResult\<close>.\<close>

record adapters =
  pancakeswapClient :: "SwapParams \<Rightarrow> TradeResult"
  uniswapClient :: "SwapParams \<Rightarrow> TradeResult"
  uniswapV3Client :: "SwapParams \<Rightarrow> TradeResult"
  jupiterClient :: "JupiterSwapParams \<Rightarrow> TradeResult"

datatype adapter_call =
    PancakeSwapCall SwapParams
  | UniswapV2Call SwapParams
  | UniswapV3Call SwapParams
  | JupiterCall JupiterSwapParams

record GasEstimate =
  est_gasFeeUsd :: rat
  est_gasRatio :: jsnum

definition estimateGas :: "process_env \<Rightarrow> world \<Rightarrow> NetworkType \<Rightarrow> rat \<Rightarrow> GasEstimate" where
  "estimateGas env w n amount =
     (if n = SOL then \<lparr>est_gasFeeUsd = 1 / 100, est_gasRatio = js_div (1 / 100) amount\<rparr>
      else case web3Instances env n of
        None \<Rightarrow> \<lparr>est_gasFeeUsd = 0, est_gasRatio = Num 0\<rparr>
      | Some web3 \<Rightarrow>
          (case getGasPrice w n of
             Inl error \<Rightarrow> \<lparr>est_gasFeeUsd = 0, est_gasRatio = Num 0\<rparr>
           | Inr gasPrice \<Rightarrow>
               (let estimatedGas = 200000;
                    gasFeeWei = gasPrice * estimatedGas;
                    gasFeeNative = fromWei gasFeeWei;
                    nativeTokenPrice = getPrice (priceApi w 1) n;
                    gasFee_usd = gasFeeNative * nativeTokenPrice;
                    gasRatio = js_div gasFee_usd amount
                in \<lparr>est_gasFeeUsd = gasFee_usd, est_gasRatio = gasRatio\<rparr>)))"

definition gas_too_high :: "world \<Rightarrow> NetworkType TradeParams \<Rightarrow> GasEstimate \<Rightarrow> rat \<Rightarrow> TradeResult" where
  \<comment> \<open>the result returned when the pre-check fires\<close>
  "gas_too_high w params gasEstimate nativeTokenPriceUsd =
     \<lparr>success = False, txHash = None, tokenAmount = None,
      gasFee = Some (toFixed 6 (est_gasFeeUsd gasEstimate / nativeTokenPriceUsd)),
      gasFeeUsd = Some (toFixed 2 (est_gasFeeUsd gasEstimate)),
      tokenPrice = None, slippage = None,
      errorMessage = Some (''Gas fee ($'' @ toFixed_str 2 (est_gasFeeUsd gasEstimate) @
        '') exceeds '' @ toFixed_str 0 (maxGasRatio params * 100) @ ''% of trade value ($'' @
        numberToString w (amountUsd params) @ '')'')\<rparr>"

definition swap_params ::
  "string \<Rightarrow> NetworkType TradeParams \<Rightarrow> rat \<Rightarrow> string \<Rightarrow> string \<Rightarrow> rat \<Rightarrow> SwapParams" where
  "swap_params web3 params amountNative walletAddress privateKey nativeTokenPriceUsd =
     \<lparr>sp_web3 = web3, sp_network = network params, sp_tokenAddress = tokenAddress params,
      sp_amountETH = amountNative, sp_slippageTolerance = slippageTolerance params,
      sp_walletAddress = walletAddress, sp_privateKey = privateKey,
      sp_nativeTokenPriceUsd = nativeTokenPriceUsd\<rparr>"

definition dispatchEVM ::
  "adapters \<Rightarrow> NetworkType TradeParams \<Rightarrow> SwapParams \<Rightarrow> TradeResult \<times> adapter_call list" where
  \<comment> \<open>the part of \<^verbatim>\<open>executeEVMTrade\<close> after the gas pre-check; \<open>sp\<close> is the parameter object
      every adapter call of that part is given\<close>
  "dispatchEVM ad params sp =
     (if network params = BNB then (pancakeswapClient ad sp, [PancakeSwapCall sp])
      else if network params = BASE \<or> network params = ETH then
        (if dexVersion params = Some ''v4'' then
           (failed_with (''Uniswap V4 integration is under development. '' @
              ''Please select V2, V3, or auto-detect mode.''), [])
         else if dexVersion params = Some ''v2'' then
           (uniswapClient ad sp, [UniswapV2Call sp])
         else
           (let isAutoMode = (\<not> truthy (dexVersion params) \<or> dexVersion params = Some ''auto'');
                v3Result = uniswapV3Client ad sp
            in if success v3Result \<or> dexVersion params = Some ''v3''
               then (v3Result, [UniswapV3Call sp])
               else if isAutoMode \<and>
                       (case errorMessage v3Result of
                          None \<Rightarrow> False
                        | Some m \<Rightarrow> str_includes m ''No Uniswap V3 liquidity pool found'')
               then (uniswapClient ad sp, [UniswapV3Call sp, UniswapV2Call sp])
               else (v3Result, [UniswapV3Call sp])))
      else (pancakeswapClient ad sp, [PancakeSwapCall sp]))"

definition executeEVMTrade ::
  "process_env \<Rightarrow> world \<Rightarrow> adapters \<Rightarrow> NetworkType TradeParams \<Rightarrow>
     TradeResult \<times> adapter_call list" where
  "executeEVMTrade env w ad params =
     (case web3Instances env (network params) of
        None \<Rightarrow> (failed_with (''Web3 instance not found for '' @ network_name (network params)), [])
      | Some web3 \<Rightarrow>
          (case getPrivateKey env (network params) of
             None \<Rightarrow> (failed_with (''Private key not configured for '' @
                        network_name (network params)), [])
           | Some privateKey \<Rightarrow>
               if privateKey = [] then
                 (failed_with (''Private key not configured for '' @
                    network_name (network params)), [])
               else
                 (case privateKeyToAccount w privateKey of
                    Inl error \<Rightarrow> (failed_with (''EVM trade failed: '' @ message_text error), [])
                  | Inr walletAddress \<Rightarrow>
                      (let nativeTokenPriceUsd = getPrice (priceApi w 0) (network params);
                           amountNative = amountUsd params / nativeTokenPriceUsd;
                           gasEstimate = estimateGas env w (network params) (amountUsd params)
                       in if js_gt (est_gasRatio gasEstimate) (maxGasRatio params)
                          then (gas_too_high w params gasEstimate nativeTokenPriceUsd, [])
                          else dispatchEVM ad params
                                 (swap_params web3 params amountNative walletAddress privateKey
                                    nativeTokenPriceUsd)))))"

definition executeSolanaTrade ::
  "process_env \<Rightarrow> world \<Rightarrow> adapters \<Rightarrow> NetworkType TradeParams \<Rightarrow>
     TradeResult \<times> adapter_call list" where
  "executeSolanaTrade env w ad params =
     (case solanaConnection env of
        None \<Rightarrow> (failed_with ''Solana connection not configured'', [])
      | Some connection \<Rightarrow>
          (case getPrivateKey env SOL of
             None \<Rightarrow> (failed_with ''Solana private key not configured'', [])
           | Some privateKey \<Rightarrow>
               if privateKey = [] then (failed_with ''Solana private key not configured'', [])
               else
                 (case keypairFromSecretKey w privateKey of
                    Inl error \<Rightarrow> (failed_with (''Solana trade failed: '' @ message_text error), [])
                  | Inr walletAddress \<Rightarrow>
                      (let solPriceUsd = getPrice (priceApi w 0) SOL;
                           amountSOL = amountUsd params / solPriceUsd;
                           jp = \<lparr>jp_connection = connection, jp_tokenMint = tokenAddress params,
                                 jp_amountSOL = amountSOL,
                                 jp_slippageBps = \<lfloor>slippageTolerance params * 100\<rfloor>,
                                 jp_walletAddress = walletAddress, jp_privateKey = privateKey,
                                 jp_solPriceUsd = solPriceUsd\<rparr>
                       in (jupiterClient ad jp, [JupiterCall jp])))))"

definition executeTrade ::
  "process_env \<Rightarrow> world \<Rightarrow> adapters \<Rightarrow> NetworkType TradeParams \<Rightarrow>
     TradeResult \<times> adapter_call list" where
  \<comment> \<open>the result and, in order, the adapter calls made on the way\<close>
  "executeTrade env w ad params =
     (if \<not> isNetworkAvailable env (network params) then
        (failed_with (''Network '' @ network_name (network params) @
           '' not configured. Please add RPC_URL_'' @ network_name (network params) @
           '' and PRIVATE_KEY_'' @ network_name (network params) @ '' to environment.''), [])
      else if \<not> isValidTokenAddress (network params) (tokenAddress params) then
        (failed_with (''Invalid token address format for '' @ network_name (network params) @
           '' network''), [])
      else if network params = SOL then executeSolanaTrade env w ad params
      else executeEVMTrade env w ad params)"

definition no_v3_pool_failure :: "TradeResult \<Rightarrow> bool" where
  \<comment> \<open>a failure that the fallback test of \<^verbatim>\<open>executeEVMTrade\<close> takes for "no V3 pool"\<close>
  "no_v3_pool_failure r =
     (\<not> success r \<and>
      (case errorMessage r of None \<Rightarrow> False
       | Some m \<Rightarrow> str_includes m ''No Uniswap V3 liquidity pool found''))"

section \<open>Uniswap V3 adapter\<close>





text \<open>The argument of \<^verbatim>\<open>exactInputSingle\<close> (\<^verbatim>\<open>sqrtPriceLimitX96\<close> is always 0).\<close>

record ExactInputSingleParams =
  tokenIn :: string
  tokenOut :: string
  fee :: nat
  recipient :: string
  amountIn :: nat
  amountOutMinimum :: int









section \<open>Jupiter adapter\<close>



record QuoteGetRequest =
  inputMint :: string
  outputMint :: string
  amount :: int
  slippageBps :: int








section \<open>Storage (the trade journal)\<close>

text \<open>
  A table is the list of its rows, in the order a sequential scan returns them. A
  \<^verbatim>\<open>decimal\<close> column is modelled by its value, a timestamp by milliseconds. The rows of
  \<^verbatim>\<open>InsertTradeLog\<close> are those of \<open>TradeLog\<close> with \<open>l_id\<close> and \<open>l_createdAt\<close> ignored.
\<close>

record TradeConfig =
  c_id :: string
  c_userId :: string
  c_contractAddress :: string
  c_walletAddress :: string
  c_network :: string
  c_dex :: string
  c_dexVersion :: "string option"
  c_tradeInterval :: string
  c_tradeAmountUsd :: rat
  c_maxGasRatio :: rat
  c_slippageTolerance :: rat
  c_isActive :: bool
  c_createdAt :: "nat option"
  c_updatedAt :: "nat option"


record TradeLog =
  l_id :: string
  l_userId :: string
  l_configId :: "string option"
  l_network :: string
  l_dex :: string
  l_tokenAddress :: string
  l_tradeType :: string
  l_amountUsd :: rat
  l_tokenAmount :: "rat option"
  l_gasFee :: "rat option"
  l_gasFeeUsd :: "rat option"
  l_status :: string
  l_txHash :: "string option"
  l_errorMessage :: "string option"
  l_slippage :: "rat option"
  l_tokenPrice :: "jsnum option"
  l_createdAt :: "nat option"


record BotStatus =
  b_id :: string
  b_userId :: string
  b_network :: string
  b_isRunning :: bool
  b_activeConfigId :: "string option"
  b_lastTradeAt :: "nat option"
  b_nextTradeAt :: "nat option"
  b_totalTradesCount :: int
  b_successfulTradesCount :: int
  b_failedTradesCount :: int
  b_totalVolumeUsd :: rat
  b_updatedAt :: "nat option"


record db =
  tradeConfigs :: "TradeConfig list"
  tradeLogs :: "TradeLog list"
  botStatus :: "BotStatus list"




definition getAllActiveConfigs :: "db \<Rightarrow> string \<Rightarrow> TradeConfig list" where
  "getAllActiveConfigs d userId =
     filter (\<lambda>c. c_userId c = userId \<and> c_isActive c = True) (tradeConfigs d)"













section \<open>Bot scheduler: one tick\<close>
















section \<open>Concrete inputs\<close>

text \<open>A configured process, a world whose price API is unreachable (so the oracle answers
  with the fallback prices) and whose nodes quote 10 gwei, and recognisable adapters.\<close>

definition demo_env :: process_env where
  "demo_env = \<lparr>RPC_URL = (\<lambda>n. Some ''https://rpc.example''),
                PRIVATE_KEY = (\<lambda>n. Some ''secret'')\<rparr>"

definition demo_world :: world where
  "demo_world = \<lparr>privateKeyToAccount = (\<lambda>k. Inr ''0xWallet''),
                  keypairFromSecretKey = (\<lambda>k. Inr ''Wallet''),
                  getGasPrice = (\<lambda>n. Inr 10000000000),
                  priceApi = (\<lambda>i coinId. FetchFailed (Error ''fetch failed'')),
                  numberToString = (\<lambda>x. ''5'')\<rparr>"

definition demo_adapters :: adapters where
  "demo_adapters = \<lparr>pancakeswapClient = (\<lambda>sp. failed_with ''PancakeSwap swap failed: x''),
     uniswapClient = (\<lambda>sp. failed_with ''Uniswap swap failed: x''),
     uniswapV3Client = (\<lambda>sp. failed_with
        ''No Uniswap V3 liquidity pool found for this token on BASE.''),
     jupiterClient = (\<lambda>jp. failed_with ''Jupiter swap failed: x'')\<rparr>"

definition demo_trade :: "string option \<Rightarrow> rat \<Rightarrow> NetworkType TradeParams" where
  \<comment> \<open>a 5 USD trade on BASE with the given \<open>dexVersion\<close> and \<open>maxGasRatio\<close>; with
      \<open>maxGasRatio = 0.5\<close> it is end-to-end scenario 2 of the specification\<close>
  "demo_trade v m = \<lparr>network = BASE, dex = ''Uniswap'', dexVersion = v,
     tokenAddress = ''0x4200000000000000000000000000000000000006'',
     amountUsd = 5, slippageTolerance = 1, maxGasRatio = m\<rparr>"

definition demo_swap :: SwapParams where
  \<comment> \<open>what the adapters are given for \<open>demo_trade\<close>: 5 USD at 2000 USD per ETH\<close>
  "demo_swap = \<lparr>sp_web3 = ''https://rpc.example'', sp_network = BASE,
     sp_tokenAddress = ''0x4200000000000000000000000000000000000006'',
     sp_amountETH = 1 / 400, sp_slippageTolerance = 1, sp_walletAddress = ''0xWallet'',
     sp_privateKey = ''secret'', sp_nativeTokenPriceUsd = 2000\<rparr>"














section \<open>Arithmetic of the number model\<close>


lemma floor_rat_one_numeral: "\<lfloor>(1 :: rat) / numeral b\<rfloor> = 1 div numeral b"
  by (metis floor_divide_of_int_eq of_int_numeral of_int_1)

section \<open>The retry engine\<close>

lemma retry_loop_calls_le:
  "calls (retry_loop opts fn attempt d le s n zs) \<le> n + nat (p_maxRetries opts + 1 - attempt)"
proof (induction opts fn attempt d le s n zs rule: retry_loop.induct)
  case (1 opts fn attempt delayMs lastError s n zs)
  show ?case
  proof (cases "attempt \<le> p_maxRetries opts")
    case False
    then show ?thesis by (subst retry_loop.simps) simp
  next
    case True
    obtain r s' where f: "fn s = (r, s')" by (cases "fn s")
    show ?thesis
    proof (cases r)
      case (Inr v)
      with True f show ?thesis by (subst retry_loop.simps) simp
    next
      case (Inl e)
      show ?thesis
      proof (cases "attempt = p_maxRetries opts \<or> \<not> isRetryableError e (p_retryableErrors opts)")
        case stop: True
        with True f Inl show ?thesis by (subst retry_loop.simps) auto
      next
        case go: False
        from "1.IH"[OF True f[symmetric] Inl go]
        have "calls (retry_loop opts fn (attempt + 1)
                 (min (delayMs * p_backoffMultiplier opts) (p_maxDelayMs opts)) e s' (n + 1)
                 (zs @ [delayMs])) \<le> n + 1 + nat (p_maxRetries opts + 1 - (attempt + 1))" .
        moreover have "retry_loop opts fn attempt delayMs lastError s n zs =
              retry_loop opts fn (attempt + 1)
                 (min (delayMs * p_backoffMultiplier opts) (p_maxDelayMs opts)) e s' (n + 1)
                 (zs @ [delayMs])"
          using True f Inl go by (subst retry_loop.simps) simp
        ultimately show ?thesis using True by simp
      qed
    qed
  qed
qed

lemma retry_loop_stop:
  assumes "\<forall>j<k. retryable_failure opts (invocation fn s j)"
    and "attempt + int k \<le> p_maxRetries opts"
    and "attempt + int k = p_maxRetries opts \<or> \<not> retryable_failure opts (invocation fn s k)"
  shows "outcome (retry_loop opts fn attempt d le s n zs) = invocation fn s k
       \<and> calls (retry_loop opts fn attempt d le s n zs) = n + k + 1
       \<and> final (retry_loop opts fn attempt d le s n zs) = state_before fn s (Suc k)"
  using assms
proof (induction k arbitrary: attempt d le s n zs)
  case 0
  obtain r s' where f: "fn s = (r, s')" by (cases "fn s")
  from 0 have le: "attempt \<le> p_maxRetries opts" by simp
  from 0 f have stop: "attempt = p_maxRetries opts \<or> \<not> retryable_failure opts r"
    by (simp add: invocation_def)
  show ?case
    using le f stop
    by (subst (1 2 3) retry_loop.simps) (auto simp: invocation_def retryable_failure_def split: sum.splits)
next
  case (Suc k)
  obtain r s' where f: "fn s = (r, s')" by (cases "fn s")
  from Suc.prems(1) have "retryable_failure opts (invocation fn s 0)" by blast
  with f obtain e where r: "r = Inl e" and re: "isRetryableError e (p_retryableErrors opts)"
    by (auto simp: invocation_def retryable_failure_def split: sum.splits)
  from Suc.prems(2) have lt: "attempt < p_maxRetries opts" by simp
  have inv: "\<And>j. invocation fn s (Suc j) = invocation fn s' j"
    using f by (simp add: invocation_def)
  have step: "retry_loop opts fn attempt d le s n zs =
      retry_loop opts fn (attempt + 1) (min (d * p_backoffMultiplier opts) (p_maxDelayMs opts))
        e s' (n + 1) (zs @ [d])"
    using lt f r re by (subst retry_loop.simps) simp
  have a1: "\<forall>j<k. retryable_failure opts (invocation fn s' j)"
    using Suc.prems(1) inv by (metis Suc_less_eq)
  have a2: "attempt + 1 + int k \<le> p_maxRetries opts" using Suc.prems(2) by simp
  have a3: "attempt + 1 + int k = p_maxRetries opts \<or> \<not> retryable_failure opts (invocation fn s' k)"
    using Suc.prems(3) inv by (simp add: add.assoc)
  from Suc.IH[OF a1 a2 a3, of "min (d * p_backoffMultiplier opts) (p_maxDelayMs opts)" e "n + 1" "zs @ [d]"]
  show ?case using step f inv[of k] by simp
qed

lemma default_profile: "merge_options DEFAULT_OPTIONS no_options = DEFAULT_OPTIONS"
  by (simp add: merge_options_def no_options_def)

text \<open>
  Claim C4. On the default profile (no options), \<open>retryWithBackoff\<close> invokes the wrapped
  operation at most 4 times. If the first \<open>k\<close> invocations (\<open>k < 4\<close>) fail with retryable
  errors and invocation \<open>k\<close> either succeeds, or fails with an error that is not retryable,
  or is the fourth one, then the run ends with exactly \<open>k + 1\<close> invocations and hands the
  caller the result of invocation \<open>k\<close>: the value on success, that very error otherwise.
  Retryable means that the lower-cased message contains one of the lower-cased patterns
  429, rate limit, too many requests, ECONNRESET, ETIMEDOUT, ENOTFOUND.
\<close>

theorem retryWithBackoff_default:
  "calls (retryWithBackoff fn no_options s) \<le> 4 \<and>
   (\<forall>k<4. (\<forall>j<k. retryable_failure DEFAULT_OPTIONS (invocation fn s j)) \<and>
           (k = 3 \<or> \<not> retryable_failure DEFAULT_OPTIONS (invocation fn s k)) \<longrightarrow>
        outcome (retryWithBackoff fn no_options s) = invocation fn s k \<and>
        calls (retryWithBackoff fn no_options s) = k + 1 \<and>
        final (retryWithBackoff fn no_options s) = state_before fn s (k + 1))"
proof -
  have eq: "retryWithBackoff fn no_options s =
      retry_loop DEFAULT_OPTIONS fn 0 1000 undefined_value s 0 []"
    by (simp add: retryWithBackoff_def Let_def default_profile)
       (simp add: no_options_def DEFAULT_OPTIONS_def)
  have m: "p_maxRetries DEFAULT_OPTIONS = 3" by (simp add: DEFAULT_OPTIONS_def)
  have "calls (retry_loop DEFAULT_OPTIONS fn 0 1000 undefined_value s 0 []) \<le> 4"
    using retry_loop_calls_le[of DEFAULT_OPTIONS fn 0 1000 undefined_value s 0 "[]"] m by simp
  moreover have "\<forall>k<4. (\<forall>j<k. retryable_failure DEFAULT_OPTIONS (invocation fn s j)) \<and>
           (k = 3 \<or> \<not> retryable_failure DEFAULT_OPTIONS (invocation fn s k)) \<longrightarrow>
        outcome (retry_loop DEFAULT_OPTIONS fn 0 1000 undefined_value s 0 []) = invocation fn s k \<and>
        calls (retry_loop DEFAULT_OPTIONS fn 0 1000 undefined_value s 0 []) = k + 1 \<and>
        final (retry_loop DEFAULT_OPTIONS fn 0 1000 undefined_value s 0 []) = state_before fn s (k + 1)"
  proof (intro allI impI)
    fix k :: nat
    assume k: "k < 4"
      and h: "(\<forall>j<k. retryable_failure DEFAULT_OPTIONS (invocation fn s j)) \<and>
           (k = 3 \<or> \<not> retryable_failure DEFAULT_OPTIONS (invocation fn s k))"
    have "0 + int k \<le> p_maxRetries DEFAULT_OPTIONS" using k m by simp
    moreover have "0 + int k = p_maxRetries DEFAULT_OPTIONS \<or>
        \<not> retryable_failure DEFAULT_OPTIONS (invocation fn s k)" using h m by auto
    ultimately show "outcome (retry_loop DEFAULT_OPTIONS fn 0 1000 undefined_value s 0 []) = invocation fn s k \<and>
        calls (retry_loop DEFAULT_OPTIONS fn 0 1000 undefined_value s 0 []) = k + 1 \<and>
        final (retry_loop DEFAULT_OPTIONS fn 0 1000 undefined_value s 0 []) = state_before fn s (k + 1)"
      using retry_loop_stop[of k DEFAULT_OPTIONS fn s 0 1000 undefined_value 0 "[]"] h by simp
  qed
  ultimately show ?thesis by (simp only: eq)
qed

text \<open>
  The theorem at the concrete runs of the specification: "HTTP 429" twice and then a value
  gives the value after 3 invocations; four "HTTP 429" failures give the fourth error after
  4 invocations; a failure that is not retryable is handed over at once.
\<close>

theorem retryWithBackoff_default_witness:
  "outcome (retryWithBackoff scripted no_options
      [Inl (Error ''HTTP 429''), Inl (Error ''HTTP 429''), Inr ''quote'']) = Inr ''quote'' \<and>
   calls (retryWithBackoff scripted no_options
      [Inl (Error ''HTTP 429''), Inl (Error ''HTTP 429''), Inr ''quote'']) = 3 \<and>
   outcome (retryWithBackoff scripted no_options
      [Inl (Error ''HTTP 429 (1)''), Inl (Error ''HTTP 429 (2)''), Inl (Error ''HTTP 429 (3)''),
       Inl (Error ''HTTP 429 (4)''), Inr ''quote'']) = Inl (Error ''HTTP 429 (4)'') \<and>
   calls (retryWithBackoff scripted no_options
      [Inl (Error ''HTTP 429 (1)''), Inl (Error ''HTTP 429 (2)''), Inl (Error ''HTTP 429 (3)''),
       Inl (Error ''HTTP 429 (4)''), Inr ''quote'']) = 4 \<and>
   outcome (retryWithBackoff scripted no_options
      [Inl (Error ''Rate Limit exceeded''), Inl (Error ''execution reverted''), Inr ''quote''])
     = Inl (Error ''execution reverted'') \<and>
   calls (retryWithBackoff scripted no_options
      [Inl (Error ''Rate Limit exceeded''), Inl (Error ''execution reverted''), Inr ''quote'']) = 2"
proof -
  note ev = invocation_def retryable_failure_def scripted_def isRetryableError_def
    DEFAULT_OPTIONS_def Error_def message_or_def toLowerCase_def toLowerCase_char_def
  let ?a = "[Inl (Error ''HTTP 429''), Inl (Error ''HTTP 429''), Inr ''quote'']"
  let ?b = "[Inl (Error ''HTTP 429 (1)''), Inl (Error ''HTTP 429 (2)''),
       Inl (Error ''HTTP 429 (3)''), Inl (Error ''HTTP 429 (4)''), Inr ''quote'']"
  let ?c = "[Inl (Error ''Rate Limit exceeded''), Inl (Error ''execution reverted''), Inr ''quote'']"
  have a0: "retryable_failure DEFAULT_OPTIONS (invocation scripted ?a 0)"
   and a1: "retryable_failure DEFAULT_OPTIONS (invocation scripted ?a (Suc 0))"
   and a2: "invocation scripted ?a (Suc (Suc 0)) = Inr ''quote''"
    by (simp_all add: ev)
  have b0: "retryable_failure DEFAULT_OPTIONS (invocation scripted ?b 0)"
   and b1: "retryable_failure DEFAULT_OPTIONS (invocation scripted ?b (Suc 0))"
   and b2: "retryable_failure DEFAULT_OPTIONS (invocation scripted ?b (Suc (Suc 0)))"
   and b3: "invocation scripted ?b (Suc (Suc (Suc 0))) = Inl (Error ''HTTP 429 (4)'')"
    by (simp_all add: ev)
  have c0: "retryable_failure DEFAULT_OPTIONS (invocation scripted ?c 0)"
   and c1: "invocation scripted ?c (Suc 0) = Inl (Error ''execution reverted'')"
   and c2: "\<not> retryable_failure DEFAULT_OPTIONS (Inl (Error ''execution reverted''))"
    by (simp_all add: ev)
  have ha: "(\<forall>j<2. retryable_failure DEFAULT_OPTIONS (invocation scripted ?a j)) \<and>
      (2 = (3::nat) \<or> \<not> retryable_failure DEFAULT_OPTIONS (invocation scripted ?a 2))"
    using a0 a1 a2 by (auto simp: numeral_2_eq_2 less_Suc_eq retryable_failure_def)
  have hb: "(\<forall>j<3. retryable_failure DEFAULT_OPTIONS (invocation scripted ?b j)) \<and>
      (3 = (3::nat) \<or> \<not> retryable_failure DEFAULT_OPTIONS (invocation scripted ?b 3))"
    using b0 b1 b2 by (auto simp: numeral_3_eq_3 less_Suc_eq)
  have hc: "(\<forall>j<1. retryable_failure DEFAULT_OPTIONS (invocation scripted ?c j)) \<and>
      (1 = (3::nat) \<or> \<not> retryable_failure DEFAULT_OPTIONS (invocation scripted ?c 1))"
    using c0 c1 c2 by auto
  have a: "outcome (retryWithBackoff scripted no_options ?a) = Inr ''quote'' \<and>
           calls (retryWithBackoff scripted no_options ?a) = 3"
    using retryWithBackoff_default[of scripted ?a, THEN conjunct2, rule_format, of 2, OF _ ha] a2
    by (simp add: numeral_2_eq_2)
  have b: "outcome (retryWithBackoff scripted no_options ?b) = Inl (Error ''HTTP 429 (4)'') \<and>
           calls (retryWithBackoff scripted no_options ?b) = 4"
    using retryWithBackoff_default[of scripted ?b, THEN conjunct2, rule_format, of 3, OF _ hb] b3
    by (simp add: numeral_3_eq_3)
  have c: "outcome (retryWithBackoff scripted no_options ?c) = Inl (Error ''execution reverted'') \<and>
           calls (retryWithBackoff scripted no_options ?c) = 2"
    using retryWithBackoff_default[of scripted ?c, THEN conjunct2, rule_format, of 1, OF _ hc] c1
    by simp
  from a b c show ?thesis by simp
qed

section \<open>The trading service\<close>

text \<open>A trade on an EVM network that passes the availability and address checks and
  whose key yields an account reaches the gas pre-check; what \<^verbatim>\<open>executeTrade\<close> returns is
  decided there.\<close>

lemma executeTrade_reaches_precheck:
  assumes "network params \<noteq> SOL"
    and "isNetworkAvailable env (network params)"
    and "isValidTokenAddress (network params) (tokenAddress params)"
    and "getPrivateKey env (network params) = Some privateKey"
    and "web3Instances env (network params) = Some web3"
    and "privateKeyToAccount w privateKey = Inr walletAddress"
  shows "executeTrade env w ad params =
     (if js_gt (est_gasRatio (estimateGas env w (network params) (amountUsd params)))
           (maxGasRatio params)
      then (gas_too_high w params (estimateGas env w (network params) (amountUsd params))
              (getPrice (priceApi w 0) (network params)), [])
      else dispatchEVM ad params
             (swap_params web3 params
                (amountUsd params / getPrice (priceApi w 0) (network params))
                walletAddress privateKey (getPrice (priceApi w 0) (network params))))"
proof -
  from assms(1,2,4) have key: "privateKey \<noteq> []"
    by (auto simp: isNetworkAvailable_def Let_def truthy_def)
  have "executeTrade env w ad params = executeEVMTrade env w ad params"
    unfolding executeTrade_def
    by (simp only: assms(1,2,3) not_True_eq_False if_False)
  also have "\<dots> = (if js_gt (est_gasRatio (estimateGas env w (network params) (amountUsd params)))
           (maxGasRatio params)
      then (gas_too_high w params (estimateGas env w (network params) (amountUsd params))
              (getPrice (priceApi w 0) (network params)), [])
      else dispatchEVM ad params
             (swap_params web3 params
                (amountUsd params / getPrice (priceApi w 0) (network params))
                walletAddress privateKey (getPrice (priceApi w 0) (network params))))"
    unfolding executeEVMTrade_def Let_def
    by (simp only: assms(4,5,6) key option.case sum.case if_False)
  finally show ?thesis .
qed

lemma estimateGas_evm:
  assumes "n \<noteq> SOL" and "web3Instances env n = Some web3" and "getGasPrice w n = Inr gasPrice"
  shows "estimateGas env w n usd =
     \<lparr>est_gasFeeUsd = fromWei (gasPrice * 200000) * getPrice (priceApi w 1) n,
      est_gasRatio = js_div (fromWei (gasPrice * 200000) * getPrice (priceApi w 1) n) usd\<rparr>"
  using assms by (simp add: estimateGas_def Let_def)

lemma estimateGas_throws:
  assumes "n \<noteq> SOL" and "getGasPrice w n = Inl e"
  shows "estimateGas env w n usd = \<lparr>est_gasFeeUsd = 0, est_gasRatio = Num 0\<rparr>"
  using assms by (simp add: estimateGas_def split: option.splits)




lemma dispatch_v4:
  assumes "network params = ETH \<or> network params = BASE"
    and "dexVersion params = Some ''v4''"
  shows "dispatchEVM ad params sp =
      (failed_with (''Uniswap V4 integration is under development. '' @
                    ''Please select V2, V3, or auto-detect mode.''), [])"
proof -
  have n: "network params \<noteq> BNB" "network params = BASE \<or> network params = ETH"
    using assms(1) by auto
  show ?thesis
    unfolding dispatchEVM_def
    by (simp only: n assms(2) if_True if_False simp_thms)
qed

lemma dispatch_v2:
  assumes "network params = ETH \<or> network params = BASE"
    and "dexVersion params = Some ''v2''"
  shows "dispatchEVM ad params sp = (uniswapClient ad sp, [UniswapV2Call sp])"
proof -
  have n: "network params \<noteq> BNB" "network params = BASE \<or> network params = ETH"
    using assms(1) by auto
  have v: "(Some ''v2'' = Some ''v4'') = False" by simp
  show ?thesis
    unfolding dispatchEVM_def
    by (simp only: n assms(2) v if_True if_False simp_thms)
qed

lemma dispatch_v3:
  assumes "network params = ETH \<or> network params = BASE"
    and "dexVersion params = Some ''v3''"
  shows "dispatchEVM ad params sp = (uniswapV3Client ad sp, [UniswapV3Call sp])"
proof -
  have n: "network params \<noteq> BNB" "network params = BASE \<or> network params = ETH"
    using assms(1) by auto
  have v: "(Some ''v3'' = Some ''v4'') = False" "(Some ''v3'' = Some ''v2'') = False"
    by simp_all
  show ?thesis
    unfolding dispatchEVM_def Let_def
    by (simp only: n assms(2) v if_True if_False simp_thms)
qed

lemma dispatch_auto:
  assumes "network params = ETH \<or> network params = BASE"
    and "dexVersion params = Some ''auto'' \<or> dexVersion params = None"
  shows "dispatchEVM ad params sp =
        (if no_v3_pool_failure (uniswapV3Client ad sp)
         then (uniswapClient ad sp, [UniswapV3Call sp, UniswapV2Call sp])
         else (uniswapV3Client ad sp, [UniswapV3Call sp]))"
proof -
  have n: "network params \<noteq> BNB" "network params = BASE \<or> network params = ETH"
    using assms(1) by auto
  have v: "dexVersion params \<noteq> Some ''v4''" "dexVersion params \<noteq> Some ''v2''"
    "dexVersion params \<noteq> Some ''v3''"
    "\<not> truthy (dexVersion params) \<or> dexVersion params = Some ''auto''"
    using assms(2) by (auto simp: truthy_def)
  show ?thesis
  proof (cases "success (uniswapV3Client ad sp)")
    case True
    then show ?thesis
      unfolding dispatchEVM_def no_v3_pool_failure_def Let_def
      by (simp only: n v if_True if_False simp_thms)
  next
    case False
    then show ?thesis
      unfolding dispatchEVM_def no_v3_pool_failure_def Let_def
      by (simp only: n v if_True if_False simp_thms)
  qed
qed

lemma dispatch_calls_adapter:
  assumes "network params = BNB \<or> dexVersion params \<noteq> Some ''v4''"
  shows "snd (dispatchEVM ad params sp) \<noteq> []"
proof (cases "network params = BNB")
  case True
  then show ?thesis unfolding dispatchEVM_def by (simp only: if_True snd_conv) simp
next
  case False
  with assms have v: "dexVersion params \<noteq> Some ''v4''" by simp
  show ?thesis
    unfolding dispatchEVM_def Let_def
    by (simp only: False v if_False snd_conv if_distrib[of snd] if_cancel
          list.distinct not_False_eq_True not_Cons_self2 simp_thms split: if_split)
qed

text \<open>
  Claim C2. For a trade on ETH or BASE that reaches the dispatch (the checks before it
  pass and the gas pre-check does not fire), with \<open>sp\<close> the parameters an adapter is given:
  \<open>v4\<close> returns the "under development" failure and calls no adapter; \<open>v2\<close> calls the
  Uniswap V2 adapter only and returns its result; \<open>v3\<close> calls the V3 adapter only and returns
  its result; \<open>auto\<close>, or no version, calls the V3 adapter first and, exactly when its result
  is a failure whose message contains "No Uniswap V3 liquidity pool found", calls the V2
  adapter once and returns that result; otherwise it returns the V3 result.
\<close>

theorem version_strategy:
  assumes "network params = ETH \<or> network params = BASE"
    and "isNetworkAvailable env (network params)"
    and "isValidTokenAddress (network params) (tokenAddress params)"
    and "getPrivateKey env (network params) = Some privateKey"
    and "web3Instances env (network params) = Some web3"
    and "privateKeyToAccount w privateKey = Inr walletAddress"
    and "\<not> js_gt (est_gasRatio (estimateGas env w (network params) (amountUsd params)))
            (maxGasRatio params)"
    and "sp = swap_params web3 params
            (amountUsd params / getPrice (priceApi w 0) (network params))
            walletAddress privateKey (getPrice (priceApi w 0) (network params))"
  shows "(dexVersion params = Some ''v4'' \<longrightarrow>
            executeTrade env w ad params =
              (failed_with (''Uniswap V4 integration is under development. '' @
                            ''Please select V2, V3, or auto-detect mode.''), [])) \<and>
         (dexVersion params = Some ''v2'' \<longrightarrow>
            executeTrade env w ad params = (uniswapClient ad sp, [UniswapV2Call sp])) \<and>
         (dexVersion params = Some ''v3'' \<longrightarrow>
            executeTrade env w ad params = (uniswapV3Client ad sp, [UniswapV3Call sp])) \<and>
         (dexVersion params = Some ''auto'' \<or> dexVersion params = None \<longrightarrow>
            executeTrade env w ad params =
              (if no_v3_pool_failure (uniswapV3Client ad sp)
               then (uniswapClient ad sp, [UniswapV3Call sp, UniswapV2Call sp])
               else (uniswapV3Client ad sp, [UniswapV3Call sp])))"
proof -
  have sol: "network params \<noteq> SOL" using assms(1) by auto
  have run: "executeTrade env w ad params = dispatchEVM ad params sp"
    using executeTrade_reaches_precheck[OF sol assms(2,3,4,5,6)]
    by (simp only: assms(7) assms(8)[symmetric] if_False)
  show ?thesis
    unfolding run
    using dispatch_v4[OF assms(1), of ad sp] dispatch_v2[OF assms(1), of ad sp]
      dispatch_v3[OF assms(1), of ad sp] dispatch_auto[OF assms(1), of ad sp]
    by blast
qed

text \<open>
  Claim C10. For a trade on an EVM network that reaches the gas pre-check, if fetching the
  gas price throws then \<^verbatim>\<open>estimateGas\<close> returns \<open>gasFeeUsd = 0\<close> and \<open>gasRatio = 0\<close>, the
  pre-check does not fire for any \<open>maxGasRatio \<ge> 0\<close> (the data model has it in [0.1, 1.0]),
  and \<^verbatim>\<open>executeTrade\<close> goes on to the dispatch: its result and its adapter calls are those
  of the dispatch, which calls an adapter in every case but the \<open>v4\<close> refusal on ETH and
  BASE. (The price oracle itself never throws: \<open>getPrice\<close> is total.)
\<close>

theorem gas_estimate_failure_bypasses_precheck:
  assumes "network params \<noteq> SOL"
    and "isNetworkAvailable env (network params)"
    and "isValidTokenAddress (network params) (tokenAddress params)"
    and "getPrivateKey env (network params) = Some privateKey"
    and "web3Instances env (network params) = Some web3"
    and "privateKeyToAccount w privateKey = Inr walletAddress"
    and "getGasPrice w (network params) = Inl e"
    and "0 \<le> maxGasRatio params"
    and "sp = swap_params web3 params
            (amountUsd params / getPrice (priceApi w 0) (network params))
            walletAddress privateKey (getPrice (priceApi w 0) (network params))"
  shows "estimateGas env w (network params) (amountUsd params) =
            \<lparr>est_gasFeeUsd = 0, est_gasRatio = Num 0\<rparr> \<and>
         executeTrade env w ad params = dispatchEVM ad params sp \<and>
         (network params = BNB \<or> dexVersion params \<noteq> Some ''v4'' \<longrightarrow>
            snd (executeTrade env w ad params) \<noteq> [])"
proof -
  have est: "estimateGas env w (network params) (amountUsd params) =
            \<lparr>est_gasFeeUsd = 0, est_gasRatio = Num 0\<rparr>"
    using estimateGas_throws[OF assms(1,7)] .
  have quiet: "\<not> js_gt (est_gasRatio (estimateGas env w (network params) (amountUsd params)))
      (maxGasRatio params)"
    using assms(8) by (simp add: est)
  have run: "executeTrade env w ad params = dispatchEVM ad params sp"
    using executeTrade_reaches_precheck[OF assms(1,2,3,4,5,6)]
    by (simp only: quiet assms(9)[symmetric] if_False)
  show ?thesis
    using est run dispatch_calls_adapter[of params ad sp] by simp
qed

text \<open>The concrete trade reaches the gas pre-check, and the oracle answers 2000.\<close>

lemma demo_reach:
  "network (demo_trade v m) \<noteq> SOL"
  "network (demo_trade v m) = ETH \<or> network (demo_trade v m) = BASE"
  "isNetworkAvailable demo_env (network (demo_trade v m))"
  "isValidTokenAddress (network (demo_trade v m)) (tokenAddress (demo_trade v m))"
  "getPrivateKey demo_env (network (demo_trade v m)) = Some ''secret''"
  "web3Instances demo_env (network (demo_trade v m)) = Some ''https://rpc.example''"
  "getPrice (priceApi demo_world i) (network (demo_trade v m)) = 2000"
  "getPrice (priceApi (demo_world\<lparr>getGasPrice := g\<rparr>) i) (network (demo_trade v m)) = 2000"
  by (simp_all add: demo_trade_def demo_env_def demo_world_def isNetworkAvailable_def
        isValidTokenAddress_def getPrivateKey_def web3Instances_def truthy_def Let_def
        getPrice_def fetchPriceFromAPI_def)

lemma demo_account:
  "privateKeyToAccount demo_world ''secret'' = Inr ''0xWallet''"
  "privateKeyToAccount (demo_world\<lparr>getGasPrice := g\<rparr>) ''secret'' = Inr ''0xWallet''"
  by (simp_all add: demo_world_def)

lemma demo_swap_params:
  "swap_params ''https://rpc.example'' (demo_trade v m) (amountUsd (demo_trade v m) / 2000)
     ''0xWallet'' ''secret'' 2000 = demo_swap"
  by (simp add: swap_params_def demo_trade_def demo_swap_def)

lemma demo_fee: "fromWei (10000000000 * 200000) * 2000 = 4"
  by (simp add: fromWei_def)


lemma demo_estimate:
  "estimateGas demo_env demo_world (network (demo_trade v m)) (amountUsd (demo_trade v m)) =
     \<lparr>est_gasFeeUsd = 4, est_gasRatio = Num (4 / 5)\<rparr>"
proof -
  have gp: "getGasPrice demo_world (network (demo_trade v m)) = Inr 10000000000"
    by (simp add: demo_world_def)
  have amt: "amountUsd (demo_trade v m) = 5" by (simp add: demo_trade_def)
  show ?thesis
    using estimateGas_evm[OF demo_reach(1)[of v m] demo_reach(6)[of v m] gp,
        of "amountUsd (demo_trade v m)"]
    by (simp only: demo_reach(7) demo_fee amt js_div_def) simp
qed


text \<open>
  The theorem on the concrete trade with \<open>maxGasRatio = 0.9\<close> (the ratio 0.8 passes), for
  each version: the V3 adapter of \<open>demo_adapters\<close> fails for want of a pool, so \<open>auto\<close> and
  an absent version end on the V2 adapter.
\<close>

theorem version_strategy_witness:
  "executeTrade demo_env demo_world demo_adapters (demo_trade (Some ''v4'') (9 / 10)) =
     (failed_with (''Uniswap V4 integration is under development. '' @
                   ''Please select V2, V3, or auto-detect mode.''), []) \<and>
   executeTrade demo_env demo_world demo_adapters (demo_trade (Some ''v2'') (9 / 10)) =
     (uniswapClient demo_adapters demo_swap, [UniswapV2Call demo_swap]) \<and>
   executeTrade demo_env demo_world demo_adapters (demo_trade (Some ''v3'') (9 / 10)) =
     (uniswapV3Client demo_adapters demo_swap, [UniswapV3Call demo_swap]) \<and>
   executeTrade demo_env demo_world demo_adapters (demo_trade (Some ''auto'') (9 / 10)) =
     (uniswapClient demo_adapters demo_swap, [UniswapV3Call demo_swap, UniswapV2Call demo_swap]) \<and>
   executeTrade demo_env demo_world demo_adapters (demo_trade None (9 / 10)) =
     (uniswapClient demo_adapters demo_swap, [UniswapV3Call demo_swap, UniswapV2Call demo_swap])"
proof -
  have quiet: "\<And>v. \<not> js_gt (est_gasRatio (estimateGas demo_env demo_world
      (network (demo_trade v (9 / 10))) (amountUsd (demo_trade v (9 / 10)))))
      (maxGasRatio (demo_trade v (9 / 10)))"
    by (simp only: demo_estimate) (simp add: demo_trade_def)
  have sp: "\<And>v. demo_swap = swap_params ''https://rpc.example'' (demo_trade v (9 / 10))
      (amountUsd (demo_trade v (9 / 10)) /
         getPrice (priceApi demo_world 0) (network (demo_trade v (9 / 10))))
      ''0xWallet'' ''secret''
      (getPrice (priceApi demo_world 0) (network (demo_trade v (9 / 10))))"
    by (simp only: demo_reach(7) demo_swap_params)
  have dv: "\<And>v. dexVersion (demo_trade v (9 / 10)) = v" by (simp add: demo_trade_def)
  have nopool: "no_v3_pool_failure (uniswapV3Client demo_adapters demo_swap)"
    by (simp add: no_v3_pool_failure_def demo_adapters_def failed_with_def)
  note vs = version_strategy[OF demo_reach(2,3,4,5,6) demo_account(1) quiet sp,
      of _ demo_adapters, unfolded dv]
  have v4: "executeTrade demo_env demo_world demo_adapters (demo_trade (Some ''v4'') (9 / 10)) =
     (failed_with (''Uniswap V4 integration is under development. '' @
                   ''Please select V2, V3, or auto-detect mode.''), [])"
    using vs[of "Some ''v4''"] by blast
  have v2: "executeTrade demo_env demo_world demo_adapters (demo_trade (Some ''v2'') (9 / 10)) =
     (uniswapClient demo_adapters demo_swap, [UniswapV2Call demo_swap])"
    using vs[of "Some ''v2''"] by blast
  have v3: "executeTrade demo_env demo_world demo_adapters (demo_trade (Some ''v3'') (9 / 10)) =
     (uniswapV3Client demo_adapters demo_swap, [UniswapV3Call demo_swap])"
    using vs[of "Some ''v3''"] by blast
  have va: "executeTrade demo_env demo_world demo_adapters (demo_trade (Some ''auto'') (9 / 10)) =
     (uniswapClient demo_adapters demo_swap, [UniswapV3Call demo_swap, UniswapV2Call demo_swap])"
    using vs[of "Some ''auto''"] nopool by (simp only: simp_thms if_True)
  have vn: "executeTrade demo_env demo_world demo_adapters (demo_trade None (9 / 10)) =
     (uniswapClient demo_adapters demo_swap, [UniswapV3Call demo_swap, UniswapV2Call demo_swap])"
    using vs[of None] nopool by (simp only: simp_thms if_True)
  from v4 v2 v3 va vn show ?thesis by (simp only: simp_thms)
qed

text \<open>
  The theorem on the concrete trade with \<open>maxGasRatio = 0.1\<close> and a node whose gas price
  call times out: the V2 adapter is called, although at the 10 gwei of \<open>demo_world\<close> the
  ratio would be 0.8.
\<close>

theorem gas_estimate_failure_bypasses_precheck_witness:
  "estimateGas demo_env (demo_world\<lparr>getGasPrice := (\<lambda>n. Inl (Error ''ETIMEDOUT''))\<rparr>) BASE 5 =
     \<lparr>est_gasFeeUsd = 0, est_gasRatio = Num 0\<rparr> \<and>
   executeTrade demo_env (demo_world\<lparr>getGasPrice := (\<lambda>n. Inl (Error ''ETIMEDOUT''))\<rparr>)
     demo_adapters (demo_trade (Some ''v2'') (1 / 10)) =
     (uniswapClient demo_adapters demo_swap, [UniswapV2Call demo_swap])"
proof -
  let ?w = "demo_world\<lparr>getGasPrice := (\<lambda>n. Inl (Error ''ETIMEDOUT''))\<rparr>"
  let ?p = "demo_trade (Some ''v2'') (1 / 10)"
  have gp: "getGasPrice ?w (network ?p) = Inl (Error ''ETIMEDOUT'')" by simp
  have m: "0 \<le> maxGasRatio ?p" by (simp add: demo_trade_def)
  have sp: "demo_swap = swap_params ''https://rpc.example'' ?p
      (amountUsd ?p / getPrice (priceApi ?w 0) (network ?p)) ''0xWallet'' ''secret''
      (getPrice (priceApi ?w 0) (network ?p))"
    by (simp only: demo_reach(8) demo_swap_params)
  have np: "network ?p = BASE" "amountUsd ?p = 5" "dexVersion ?p = Some ''v2''"
    by (simp_all add: demo_trade_def)
  from gas_estimate_failure_bypasses_precheck[OF demo_reach(1,3,4,5,6) demo_account(2) gp m sp,
      of demo_adapters]
  have "estimateGas demo_env ?w BASE 5 = \<lparr>est_gasFeeUsd = 0, est_gasRatio = Num 0\<rparr>"
    and "executeTrade demo_env ?w demo_adapters ?p = dispatchEVM demo_adapters ?p demo_swap"
    by (simp_all only: np)
  moreover have "dispatchEVM demo_adapters ?p demo_swap =
      (uniswapClient demo_adapters demo_swap, [UniswapV2Call demo_swap])"
    using dispatch_v2[OF demo_reach(2) np(3)] .
  ultimately show ?thesis by (simp only: simp_thms)
qed

section \<open>The Uniswap V3 adapter\<close>











section \<open>Solana trades and the Jupiter adapter\<close>












section \<open>The trade journal\<close>



lemma find_map_same_key:
  assumes "\<And>x. Q x \<Longrightarrow> P (f x) = P x"
    and "\<And>x. P x \<Longrightarrow> Q x"
  shows "find P (map (\<lambda>x. if Q x then f x else x) xs) =
         map_option (\<lambda>x. if Q x then f x else x) (find P xs)"
  using assms by (induction xs) simp_all

























section \<open>The journal claims on a concrete journal\<close>




















end
